theory Spec2Isabelle
  imports Main
begin

section \<open>Go values: pointers, failures, slices, instants, strings\<close>

text \<open>
  A Go pointer is an \<open>option\<close>: \<open>None\<close> is \<open>nil\<close>. Reading through a pointer
  fails on \<open>nil\<close>; the failure (a run-time panic) is a value of the model, so a function
  that can panic returns \<open>panic + 'a\<close> with \<open>Inl\<close> for the panic.
\<close>

datatype panic = NilDereference

definition deref :: "'a option \<Rightarrow> panic + 'a" where
  "deref p = (case p of None \<Rightarrow> Inl NilDereference | Some v \<Rightarrow> Inr v)"

definition and_then :: "panic + 'a \<Rightarrow> ('a \<Rightarrow> panic + 'b) \<Rightarrow> panic + 'b" where
  "and_then r f = (case r of Inl p \<Rightarrow> Inl p | Inr v \<Rightarrow> f v)"

text \<open>\<open>p.f\<close> for a pointer \<open>p\<close> to a struct: the struct is read first.\<close>

definition field :: "('r \<Rightarrow> 'a) \<Rightarrow> 'r option \<Rightarrow> panic + 'a" where
  "field f p = and_then (deref p) (\<lambda>r. Inr (f r))"

text \<open>Go's \<open>||\<close> and \<open>&&\<close> evaluate the right operand only when the left one does not decide.\<close>

definition go_or :: "panic + bool \<Rightarrow> panic + bool \<Rightarrow> panic + bool" where
  "go_or a b = and_then a (\<lambda>x. if x then Inr True else b)"

definition go_and :: "panic + bool \<Rightarrow> panic + bool \<Rightarrow> panic + bool" where
  "go_and a b = and_then a (\<lambda>x. if x then b else Inr False)"

definition go_not :: "panic + bool \<Rightarrow> panic + bool" where
  "go_not a = and_then a (\<lambda>x. Inr (\<not> x))"

text \<open>
  A Go slice is \<open>nil\<close> or holds a list. \<open>append\<close> of no elements returns its first
  argument as it is, so a \<open>nil\<close> slice stays \<open>nil\<close>.
\<close>

type_synonym 'a slice = "'a list option"

definition elems :: "'a slice \<Rightarrow> 'a list" where
  "elems s = (case s of None \<Rightarrow> [] | Some xs \<Rightarrow> xs)"

definition append_slice :: "'a slice \<Rightarrow> 'a list \<Rightarrow> 'a slice" where
  "append_slice s xs = (if xs = [] then s else Some (elems s @ xs))"

text \<open>
  The standard library's \<open>time.Time\<close> is not part of the repository. An instant is
  modelled by its number of nanoseconds since the epoch; \<open>After\<close> and \<open>Before\<close> are the
  strict order of instants, and a \<open>time.Duration\<close> is a number of nanoseconds.
\<close>

type_synonym Time = int

type_synonym Duration = int

definition After :: "Time \<Rightarrow> Time \<Rightarrow> bool" where
  "After t u = (u < t)"

definition Before :: "Time \<Rightarrow> Time \<Rightarrow> bool" where
  "Before t u = (t < u)"

definition Second :: Duration where
  "Second = 1000000000"

definition Minute :: Duration where
  "Minute = 60 * Second"

text \<open>
  \<open>strings.ToLower\<close> and \<open>strings.HasPrefix\<close> of the standard library, on byte strings:
  \<open>ToLower\<close> maps the letters \<open>A\<close> to \<open>Z\<close> to \<open>a\<close> to \<open>z\<close> and leaves every other
  byte (logins are ASCII); \<open>HasPrefix s p\<close> compares the first \<open>length p\<close> bytes.
\<close>

definition lower_byte :: "char \<Rightarrow> char" where
  "lower_byte c = (let n = (of_char c :: nat) in if 65 \<le> n \<and> n \<le> 90 then char_of (n + 32) else c)"

definition ToLower :: "string \<Rightarrow> string" where
  "ToLower s = map lower_byte s"

definition HasPrefix :: "string \<Rightarrow> string \<Rightarrow> bool" where
  "HasPrefix s p = (length p \<le> length s \<and> take (length p) s = p)"

section \<open>The records of the hosting service\<close>

text \<open>
  The structs of the client library, with the fields the repository reads. Every field
  is a pointer in the library: the code tests them against \<open>nil\<close> and reads through them.
\<close>

record User =
  Login :: "string option"

record Label =
  Name :: "string option"

record IssueEvent =
  ID :: "int option"
  Event :: "string option"
  Actor :: "User option"
  Label :: "Label option"
  CreatedAt :: "Time option"

record IssueComment =
  User :: "User option"
  CreatedAt :: "Time option"

record PullRequestComment =
  User :: "User option"
  CreatedAt :: "Time option"

section \<open>Package matchers: one test per record shape\<close>

subsection \<open>CreatedAfter and CreatedBefore\<close>

definition matchers_CreatedAfter_MatchComment :: "Time \<Rightarrow> IssueComment option \<Rightarrow> panic + bool" where
  "matchers_CreatedAfter_MatchComment c comment =
     and_then (go_or (Inr (comment = None))
                 (and_then (field IssueComment.CreatedAt comment) (\<lambda>t. Inr (t = None))))
       (\<lambda>absent. if absent then Inr False
          else and_then (and_then (field IssueComment.CreatedAt comment) deref)
                 (\<lambda>t. Inr (After t c)))"

definition matchers_CreatedAfter_MatchEvent :: "Time \<Rightarrow> IssueEvent option \<Rightarrow> panic + bool" where
  "matchers_CreatedAfter_MatchEvent c event =
     and_then (go_or (Inr (event = None))
                 (and_then (field IssueEvent.CreatedAt event) (\<lambda>t. Inr (t = None))))
       (\<lambda>absent. if absent then Inr False
          else and_then (and_then (field IssueEvent.CreatedAt event) deref)
                 (\<lambda>t. Inr (After t c)))"

definition matchers_CreatedAfter_MatchReviewComment :: "Time \<Rightarrow> PullRequestComment option \<Rightarrow> panic + bool" where
  "matchers_CreatedAfter_MatchReviewComment c review =
     and_then (go_or (Inr (review = None))
                 (and_then (field PullRequestComment.CreatedAt review) (\<lambda>t. Inr (t = None))))
       (\<lambda>absent. if absent then Inr False
          else and_then (and_then (field PullRequestComment.CreatedAt review) deref)
                 (\<lambda>t. Inr (After t c)))"

definition matchers_CreatedBefore_MatchComment :: "Time \<Rightarrow> IssueComment option \<Rightarrow> panic + bool" where
  "matchers_CreatedBefore_MatchComment c comment =
     and_then (go_or (Inr (comment = None))
                 (and_then (field IssueComment.CreatedAt comment) (\<lambda>t. Inr (t = None))))
       (\<lambda>absent. if absent then Inr False
          else and_then (and_then (field IssueComment.CreatedAt comment) deref)
                 (\<lambda>t. Inr (Before t c)))"

definition matchers_CreatedBefore_MatchEvent :: "Time \<Rightarrow> IssueEvent option \<Rightarrow> panic + bool" where
  "matchers_CreatedBefore_MatchEvent c event =
     and_then (go_or (Inr (event = None))
                 (and_then (field IssueEvent.CreatedAt event) (\<lambda>t. Inr (t = None))))
       (\<lambda>absent. if absent then Inr False
          else and_then (and_then (field IssueEvent.CreatedAt event) deref)
                 (\<lambda>t. Inr (Before t c)))"

definition matchers_CreatedBefore_MatchReviewComment :: "Time \<Rightarrow> PullRequestComment option \<Rightarrow> panic + bool" where
  "matchers_CreatedBefore_MatchReviewComment c review =
     and_then (go_or (Inr (review = None))
                 (and_then (field PullRequestComment.CreatedAt review) (\<lambda>t. Inr (t = None))))
       (\<lambda>absent. if absent then Inr False
          else and_then (and_then (field PullRequestComment.CreatedAt review) deref)
                 (\<lambda>t. Inr (Before t c)))"

subsection \<open>ValidAuthor and AuthorLogin\<close>

definition ValidAuthor_MatchEvent :: "IssueEvent option \<Rightarrow> panic + bool" where
  "ValidAuthor_MatchEvent event =
     go_and (Inr (event \<noteq> None))
       (go_and (and_then (field Actor event) (\<lambda>u. Inr (u \<noteq> None)))
          (and_then (and_then (field Actor event) (field Login)) (\<lambda>l. Inr (l \<noteq> None))))"

definition ValidAuthor_MatchComment :: "IssueComment option \<Rightarrow> panic + bool" where
  "ValidAuthor_MatchComment comment =
     go_and (Inr (comment \<noteq> None))
       (go_and (and_then (field IssueComment.User comment) (\<lambda>u. Inr (u \<noteq> None)))
          (and_then (and_then (field IssueComment.User comment) (field Login)) (\<lambda>l. Inr (l \<noteq> None))))"

definition ValidAuthor_MatchReviewComment :: "PullRequestComment option \<Rightarrow> panic + bool" where
  "ValidAuthor_MatchReviewComment review =
     go_and (Inr (review \<noteq> None))
       (go_and (and_then (field PullRequestComment.User review) (\<lambda>u. Inr (u \<noteq> None)))
          (and_then (and_then (field PullRequestComment.User review) (field Login)) (\<lambda>l. Inr (l \<noteq> None))))"

definition AuthorLogin_MatchEvent :: "string \<Rightarrow> IssueEvent option \<Rightarrow> panic + bool" where
  "AuthorLogin_MatchEvent a event =
     and_then (go_not (ValidAuthor_MatchEvent event))
       (\<lambda>invalid. if invalid then Inr False
          else and_then (and_then (and_then (field Actor event) (field Login)) deref)
                 (\<lambda>login. Inr (ToLower login = ToLower a)))"

definition AuthorLogin_MatchComment :: "string \<Rightarrow> IssueComment option \<Rightarrow> panic + bool" where
  "AuthorLogin_MatchComment a comment =
     and_then (go_not (ValidAuthor_MatchComment comment))
       (\<lambda>invalid. if invalid then Inr False
          else and_then (and_then (and_then (field IssueComment.User comment) (field Login)) deref)
                 (\<lambda>login. Inr (ToLower login = ToLower a)))"

definition AuthorLogin_MatchReviewComment :: "string \<Rightarrow> PullRequestComment option \<Rightarrow> panic + bool" where
  "AuthorLogin_MatchReviewComment a review =
     and_then (go_not (ValidAuthor_MatchReviewComment review))
       (\<lambda>invalid. if invalid then Inr False
          else and_then (and_then (and_then (field PullRequestComment.User review) (field Login)) deref)
                 (\<lambda>login. Inr (ToLower login = ToLower a)))"

subsection \<open>AddLabel and LabelPrefix\<close>

definition matchers_AddLabel_MatchEvent :: "IssueEvent option \<Rightarrow> panic + bool" where
  "matchers_AddLabel_MatchEvent event =
     and_then (go_or (Inr (event = None))
                 (and_then (field Event event) (\<lambda>t. Inr (t = None))))
       (\<lambda>absent. if absent then Inr False
          else and_then (and_then (field Event event) deref)
                 (\<lambda>tag. Inr (tag = ''labeled'')))"

definition matchers_AddLabel_MatchComment :: "IssueComment option \<Rightarrow> panic + bool" where
  "matchers_AddLabel_MatchComment comment = Inr False"

definition matchers_AddLabel_MatchReviewComment :: "PullRequestComment option \<Rightarrow> panic + bool" where
  "matchers_AddLabel_MatchReviewComment review = Inr False"

definition LabelPrefix_MatchEvent :: "string \<Rightarrow> IssueEvent option \<Rightarrow> panic + bool" where
  "LabelPrefix_MatchEvent l event =
     and_then (go_or (Inr (event = None))
                 (go_or (and_then (field Label event) (\<lambda>p. Inr (p = None)))
                    (and_then (and_then (field Label event) (field Name)) (\<lambda>n. Inr (n = None)))))
       (\<lambda>absent. if absent then Inr False
          else and_then (and_then (and_then (field Label event) (field Name)) deref)
                 (\<lambda>name. Inr (HasPrefix name l)))"

definition LabelPrefix_MatchComment :: "string \<Rightarrow> IssueComment option \<Rightarrow> panic + bool" where
  "LabelPrefix_MatchComment l comment = Inr False"

definition LabelPrefix_MatchReviewComment :: "string \<Rightarrow> PullRequestComment option \<Rightarrow> panic + bool" where
  "LabelPrefix_MatchReviewComment l review = Inr False"

subsection \<open>EventType, CommentType and ReviewCommentType\<close>

definition EventType_MatchEvent :: "IssueEvent option \<Rightarrow> panic + bool" where
  "EventType_MatchEvent event = Inr True"

definition EventType_MatchComment :: "IssueComment option \<Rightarrow> panic + bool" where
  "EventType_MatchComment comment = Inr False"

definition EventType_MatchReviewComment :: "PullRequestComment option \<Rightarrow> panic + bool" where
  "EventType_MatchReviewComment review = Inr False"

definition CommentType_MatchEvent :: "IssueEvent option \<Rightarrow> panic + bool" where
  "CommentType_MatchEvent event = Inr False"

definition CommentType_MatchComment :: "IssueComment option \<Rightarrow> panic + bool" where
  "CommentType_MatchComment comment = Inr True"

definition CommentType_MatchReviewComment :: "PullRequestComment option \<Rightarrow> panic + bool" where
  "CommentType_MatchReviewComment review = Inr False"

definition ReviewCommentType_MatchEvent :: "IssueEvent option \<Rightarrow> panic + bool" where
  "ReviewCommentType_MatchEvent event = Inr False"

definition ReviewCommentType_MatchComment :: "IssueComment option \<Rightarrow> panic + bool" where
  "ReviewCommentType_MatchComment comment = Inr False"

definition ReviewCommentType_MatchReviewComment :: "PullRequestComment option \<Rightarrow> panic + bool" where
  "ReviewCommentType_MatchReviewComment review = Inr True"

section \<open>Package event: matchers over events\<close>

text \<open>
  The interface \<open>Matcher\<close> has the single method \<open>Match\<close>: a matcher is the function
  its method computes. A call of \<open>Match\<close> may panic, as any Go call may.
\<close>

type_synonym Matcher = "IssueEvent option \<Rightarrow> panic + bool"



definition Not_Match :: "Matcher \<Rightarrow> IssueEvent option \<Rightarrow> panic + bool" where
  "Not_Match n event = go_not (n event)"

definition Actor_Match :: "string \<Rightarrow> IssueEvent option \<Rightarrow> panic + bool" where
  "Actor_Match a event =
     and_then (go_or (and_then (field Actor event) (\<lambda>u. Inr (u = None)))
                 (and_then (and_then (field Actor event) (field Login)) (\<lambda>l. Inr (l = None))))
       (\<lambda>absent. if absent then Inr False
          else and_then (and_then (and_then (field Actor event) (field Login)) deref)
                 (\<lambda>login. Inr (login = a)))"

definition event_AddLabel_Match :: "string \<Rightarrow> IssueEvent option \<Rightarrow> panic + bool" where
  "event_AddLabel_Match a event =
     and_then (go_or (and_then (field Label event) (\<lambda>p. Inr (p = None)))
                 (go_or (and_then (and_then (field Label event) (field Name)) (\<lambda>n. Inr (n = None)))
                    (and_then (field Event event) (\<lambda>t. Inr (t = None)))))
       (\<lambda>absent. if absent then Inr False
          else go_or (and_then (and_then (field Event event) deref) (\<lambda>tag. Inr (tag = ''labeled'')))
                 (and_then (and_then (and_then (field Label event) (field Name)) deref)
                    (\<lambda>name. Inr (name = a))))"

definition event_CreatedAfter_Match :: "Time \<Rightarrow> IssueEvent option \<Rightarrow> panic + bool" where
  "event_CreatedAfter_Match c event =
     and_then (and_then (field IssueEvent.CreatedAt event) deref) (\<lambda>t. Inr (After t c))"

definition event_CreatedBefore_Match :: "Time \<Rightarrow> IssueEvent option \<Rightarrow> panic + bool" where
  "event_CreatedBefore_Match c event =
     and_then (and_then (field IssueEvent.CreatedAt event) deref) (\<lambda>t. Inr (Before t c))"

subsection \<open>FindEvent\<close>

text \<open>
  The loop over \<open>events\<close>, with the slice \<open>matchingEvents\<close> it grows; \<open>FindEvent\<close>
  starts it from the empty slice, which is not \<open>nil\<close>.
\<close>

fun FindEvent_loop :: "IssueEvent option list \<Rightarrow> Matcher \<Rightarrow> IssueEvent option slice
    \<Rightarrow> panic + IssueEvent option slice" where
  "FindEvent_loop [] matcher matchingEvents = Inr matchingEvents"
| "FindEvent_loop (event # rest) matcher matchingEvents =
     and_then (matcher event)
       (\<lambda>matched. FindEvent_loop rest matcher
          (if matched then append_slice matchingEvents [event] else matchingEvents))"

definition FindEvent :: "IssueEvent option slice \<Rightarrow> Matcher \<Rightarrow> panic + IssueEvent option slice" where
  "FindEvent events matcher = FindEvent_loop (elems events) matcher (Some [])"

section \<open>The API client\<close>

subsection \<open>Requests, responses and the client value\<close>

text \<open>
  A Go \<open>error\<close> value is its message. The options and responses are the client
  library's; \<open>GithubClient\<close> is the handle \<open>github.NewClient\<close> returns, made with a
  token or without one.
\<close>

type_synonym error = string

record ListOptions =
  Page :: int
  PerPage :: int

record IssueListByRepoOptions =
  Since :: Time
  Sort :: string
  State :: string
  Direction :: string
  ListOptions :: ListOptions

record Response =
  NextPage :: int

record Issue =
  Number :: "int option"
  UpdatedAt :: "Time option"

record Rate =
  Remaining :: int
  Reset :: Time

record RateLimits =
  Core :: "Rate option"

datatype GithubClient = NewClient "string option"

record Client =
  Token :: string
  TokenFile :: string
  Org :: string
  Project :: string
  githubClient :: "GithubClient option"

definition tokenLimit :: int where
  "tokenLimit = 50"

subsection \<open>The external collaborators\<close>

text \<open>
  The file system, the hosting service, the clock and the process's output are outside
  the repository. They are a world \<open>'w\<close> and the operations the code calls on it, each
  returning what the call returns and the world after the call. A request returns an
  error or a page with its response; the rate-limit probe returns a pointer and an error.
\<close>

record 'w Env =
  ReadFile :: "string \<Rightarrow> 'w \<Rightarrow> (error + string) \<times> 'w"
  GetRateLimits :: "GithubClient \<Rightarrow> 'w \<Rightarrow> (RateLimits option \<times> error option) \<times> 'w"
  ListByRepo :: "GithubClient \<Rightarrow> string \<Rightarrow> string \<Rightarrow> IssueListByRepoOptions \<Rightarrow> 'w
    \<Rightarrow> (error + Issue list \<times> Response) \<times> 'w"
  ListRepositoryEvents :: "GithubClient \<Rightarrow> string \<Rightarrow> string \<Rightarrow> ListOptions \<Rightarrow> 'w
    \<Rightarrow> (error + IssueEvent list \<times> Response) \<times> 'w"
  Sleep :: "Duration \<Rightarrow> 'w \<Rightarrow> 'w"
  Now :: "'w \<Rightarrow> Time"
  Print :: "string \<Rightarrow> 'w \<Rightarrow> 'w"

text \<open>
  \<open>strings.TrimSpace\<close> on byte strings, and \<open>Time.Sub\<close>, which saturates at the ends of
  the 64-bit range of durations.
\<close>

definition is_space :: "char \<Rightarrow> bool" where
  "is_space c = ((of_char c :: nat) \<in> {9, 10, 11, 12, 13, 32})"

definition TrimSpace :: "string \<Rightarrow> string" where
  "TrimSpace s = rev (dropWhile is_space (rev (dropWhile is_space s)))"

definition Sub :: "Time \<Rightarrow> Time \<Rightarrow> Duration" where
  "Sub t u = (let d = t - u in
     if d < - (2 ^ 63) then - (2 ^ 63) else if 2 ^ 63 - 1 < d then 2 ^ 63 - 1 else d)"

subsection \<open>getGithubClient and limitsCheckAndWait\<close>

definition getGithubClient :: "'w Env \<Rightarrow> Client \<Rightarrow> 'w \<Rightarrow> (error + GithubClient) \<times> Client \<times> 'w" where
  "getGithubClient env client w =
     (case githubClient client of
        Some gc \<Rightarrow> (Inr gc, client, w)
      | None \<Rightarrow>
          (case (if length (Token client) = 0 \<and> length (TokenFile client) \<noteq> 0
                 then (case ReadFile env (TokenFile client) w of
                         (Inl err, w1) \<Rightarrow> (Inl err, w1)
                       | (Inr data, w1) \<Rightarrow> (Inr (TrimSpace data), w1))
                 else (Inr (Token client), w)) of
             (Inl err, w1) \<Rightarrow> (Inl err, client, w1)
           | (Inr token, w1) \<Rightarrow>
               (let gc = (if length token > 0 then NewClient (Some token) else NewClient None)
                in (Inr gc, client\<lparr>githubClient := Some gc\<rparr>, w1))))"

definition limitsCheckAndWait :: "'w Env \<Rightarrow> Client \<Rightarrow> 'w \<Rightarrow> Client \<times> 'w" where
  "limitsCheckAndWait env client w =
     (case getGithubClient env client w of
        (Inl err, client1, w1) \<Rightarrow>
          (client1, Sleep env Minute (Print env ''Failed to get RateLimits'' w1))
      | (Inr gc, client1, w1) \<Rightarrow>
          (case GetRateLimits env gc w1 of
             ((limits, err), w2) \<Rightarrow>
               (case (if err \<noteq> None then (Minute, Print env ''Failed to get RateLimits'' w2)
                      else (0, w2)) of
                  (sleep1, w3) \<Rightarrow>
                    (case (case limits of
                             None \<Rightarrow> (sleep1, w3)
                           | Some l \<Rightarrow>
                               (case Core l of
                                  None \<Rightarrow> (sleep1, w3)
                                | Some core \<Rightarrow>
                                    if Remaining core < tokenLimit
                                    then (Sub (Reset core) (Now env w3),
                                          Print env ''RateLimits: reached. Sleeping'' w3)
                                    else (sleep1, w3))) of
                       (sleep2, w4) \<Rightarrow> (client1, Sleep env sleep2 w4)))))"

subsection \<open>Loops that may run forever\<close>

text \<open>
  A \<open>for { ... }\<close> loop: its body, run on the loop's variables, panics, leaves the
  loop with the function's result, or goes round again. The loop returns \<open>None\<close> when
  it never leaves.
\<close>

datatype ('s, 'r) step = Continue 's | Done 'r

partial_function (option) for_loop :: "('s \<Rightarrow> panic + ('s, 'r) step) \<Rightarrow> 's \<Rightarrow> (panic + 'r) option" where
  "for_loop body st =
     (case body st of
        Inl p \<Rightarrow> Some (Inl p)
      | Inr (Continue st') \<Rightarrow> for_loop body st'
      | Inr (Done r) \<Rightarrow> Some (Inr r))"

subsection \<open>FetchIssues\<close>

fun print_issues :: "'w Env \<Rightarrow> Issue list \<Rightarrow> 'w \<Rightarrow> panic + 'w" where
  "print_issues env [] w = Inr w"
| "print_issues env (issue # rest) w =
     and_then (deref (Number issue)) (\<lambda>number.
       and_then (deref (UpdatedAt issue)) (\<lambda>updated.
         print_issues env rest (Print env ''Issue last updated'' w)))"

type_synonym 'w FetchIssues_vars = "Client \<times> IssueListByRepoOptions \<times> Issue slice \<times> 'w"

type_synonym ('a, 'w) returned = "('a slice \<times> error option) \<times> Client \<times> 'w"

definition FetchIssues_body :: "'w Env \<Rightarrow> GithubClient \<Rightarrow> 'w FetchIssues_vars
    \<Rightarrow> panic + ('w FetchIssues_vars, (Issue, 'w) returned) step" where
  "FetchIssues_body env gc vars =
     (case vars of (client, opt, allIssues, w) \<Rightarrow>
        (case limitsCheckAndWait env client w of (client1, w1) \<Rightarrow>
           (case ListByRepo env gc (Org client1) (Project client1) opt w1 of
              (Inl err, w2) \<Rightarrow> Inr (Done ((None, Some err), client1, w2))
            | (Inr (issues, resp), w2) \<Rightarrow>
                and_then (print_issues env issues w2) (\<lambda>w3.
                  let allIssues1 = append_slice allIssues issues in
                  if NextPage resp = 0 then Inr (Done ((allIssues1, None), client1, w3))
                  else Inr (Continue (client1,
                         opt\<lparr>ListOptions := (ListOptions opt)\<lparr>Page := NextPage resp\<rparr>\<rparr>,
                         allIssues1, w3))))))"

definition FetchIssues :: "'w Env \<Rightarrow> Client \<Rightarrow> Time \<Rightarrow> 'w \<Rightarrow> (panic + (Issue, 'w) returned) option" where
  "FetchIssues env client latest w =
     (let opt = \<lparr>Since = latest, Sort = ''updated'', State = ''all'', Direction = ''asc'',
                 ListOptions = \<lparr>Page = 0, PerPage = 0\<rparr>\<rparr> in
      case getGithubClient env client w of
        (Inl err, client1, w1) \<Rightarrow> Some (Inr ((None, Some err), client1, w1))
      | (Inr gc, client1, w1) \<Rightarrow> for_loop (FetchIssues_body env gc) (client1, opt, None, w1))"

subsection \<open>FetchIssueEvents\<close>

fun wasIdFound :: "IssueEvent list \<Rightarrow> int \<Rightarrow> panic + bool" where
  "wasIdFound [] ident = Inr False"
| "wasIdFound (event # rest) ident =
     and_then (deref (ID event)) (\<lambda>i. if i = ident then Inr True else wasIdFound rest ident)"

type_synonym 'w FetchIssueEvents_vars = "Client \<times> ListOptions \<times> IssueEvent slice \<times> 'w"

text \<open>
  The body ends with the test of the next page and of \<open>latest\<close>, whose \<open>break\<close> is
  followed by a second \<open>break\<close>: both outcomes of the test leave the loop, and the
  assignment to \<open>opt.Page\<close> after them is never reached.
\<close>

definition FetchIssueEvents_body :: "'w Env \<Rightarrow> GithubClient \<Rightarrow> int option \<Rightarrow> 'w FetchIssueEvents_vars
    \<Rightarrow> panic + ('w FetchIssueEvents_vars, (IssueEvent, 'w) returned) step" where
  "FetchIssueEvents_body env gc latest vars =
     (case vars of (client, opt, allEvents, w) \<Rightarrow>
        (case limitsCheckAndWait env client w of (client1, w1) \<Rightarrow>
           (case ListRepositoryEvents env gc (Org client1) (Project client1) opt
                   (Print env ''Downloading events page'' w1) of
              (Inl err, w2) \<Rightarrow>
                Inr (Continue (client1, opt, allEvents,
                       Sleep env Second (Print env ''Request failed. Wait before trying again.'' w2)))
            | (Inr (events, resp), w2) \<Rightarrow>
                (let allEvents1 = append_slice allEvents events in
                 and_then (go_or (Inr (NextPage resp = 0))
                             (go_and (Inr (latest \<noteq> None))
                                (and_then (deref latest) (wasIdFound events))))
                   (\<lambda>stop. if stop then Inr (Done ((allEvents1, None), client1, w2))
                      else Inr (Done ((allEvents1, None), client1, w2)))))))"


section \<open>Example records\<close>

text \<open>An event by the given actor login, created at the given instant.\<close>

definition event_of :: "string option \<Rightarrow> Time option \<Rightarrow> IssueEvent" where
  "event_of login created =
     \<lparr>ID = Some 1, Event = Some ''labeled'', Actor = Some \<lparr>Login = login\<rparr>, Label = None,
      CreatedAt = created\<rparr>"

text \<open>
  A record lacks a field when the record is \<open>nil\<close> or the field is; the login behind an
  author reference and the name behind a label reference are absent when the reference is.
\<close>

definition missing :: "('r \<Rightarrow> 'a option) \<Rightarrow> 'r option \<Rightarrow> bool" where
  "missing f r = (case r of None \<Rightarrow> True | Some x \<Rightarrow> f x = None)"

definition login_of :: "User option \<Rightarrow> string option" where
  "login_of u = (case u of None \<Rightarrow> None | Some x \<Rightarrow> Login x)"

definition name_of :: "Label option \<Rightarrow> string option" where
  "name_of l = (case l of None \<Rightarrow> None | Some x \<Rightarrow> Name x)"

section \<open>Runs of a loop\<close>

text \<open>
  The variables of a loop after \<open>n\<close> rounds, when each of these rounds went round again.
\<close>

fun steps :: "('s \<Rightarrow> panic + ('s, 'r) step) \<Rightarrow> nat \<Rightarrow> 's \<Rightarrow> 's option" where
  "steps body 0 st = Some st"
| "steps body (Suc n) st =
     (case body st of Inr (Continue st') \<Rightarrow> steps body n st' | _ \<Rightarrow> None)"

section \<open>An example world\<close>

text \<open>
  A client with a token, and a world that counts the requests made. The first page of
  issues is served and announces a second page, which fails. The first two requests
  for events fail; the third is served and announces a further page.
\<close>

definition test_client :: Client where
  "test_client = \<lparr>Token = ''secret'', TokenFile = [], Org = ''kubernetes'', Project = ''kubernetes'',
     githubClient = None\<rparr>"

definition test_env :: "nat Env" where
  "test_env =
     \<lparr>ReadFile = (\<lambda>path w. (Inl ''no such file'', w)),
      GetRateLimits = (\<lambda>gc w. ((None, None), w)),
      ListByRepo = (\<lambda>gc org project opt w.
         if Page (ListOptions opt) = 0
         then (Inr ([\<lparr>Number = Some 7, UpdatedAt = Some 1\<rparr>], \<lparr>NextPage = 2\<rparr>), Suc w)
         else (Inl ''server error'', Suc w)),
      ListRepositoryEvents = (\<lambda>gc org project opt w.
         if w < 2 then (Inl ''timeout'', Suc w)
         else (Inr ([event_of (Some ''bob'') (Some 1), event_of (Some ''alice'') (Some 2)],
                    \<lparr>NextPage = 2\<rparr>), Suc w)),
      Sleep = (\<lambda>d w. w),
      Now = (\<lambda>w. 0),
      Print = (\<lambda>s w. w)\<rparr>"

definition ready_client :: Client where
  "ready_client = test_client\<lparr>githubClient := Some (NewClient (Some ''secret''))\<rparr>"


section \<open>Properties of package matchers\<close>

lemmas go_defs = deref_def and_then_def field_def go_or_def go_and_def go_not_def

text \<open>
  Claim C4. \<open>AddLabel{}\<close> of package matchers: \<open>MatchEvent(e)\<close> returns true exactly
  when \<open>e\<close> is not \<open>nil\<close>, \<open>e.Event\<close> is not \<open>nil\<close> and \<open>*e.Event\<close> is \<open>"labeled"\<close>, and
  returns false otherwise; \<open>MatchComment\<close> and \<open>MatchReviewComment\<close> return false for
  every input.
\<close>

theorem matchers_AddLabel_labeled_events_only:
  "matchers_AddLabel_MatchEvent e = Inr (\<exists>ev. e = Some ev \<and> Event ev = Some ''labeled'')
   \<and> matchers_AddLabel_MatchComment c = Inr False
   \<and> matchers_AddLabel_MatchReviewComment r = Inr False"
  by (auto simp: matchers_AddLabel_MatchEvent_def matchers_AddLabel_MatchComment_def
      matchers_AddLabel_MatchReviewComment_def go_defs split: option.splits)

text \<open>
  Claim C6. On a record of each of the three shapes, \<open>CreatedAfter(t)\<close> returns true
  exactly when the record has a creation timestamp strictly after \<open>t\<close>, and
  \<open>CreatedBefore(t)\<close> exactly when it has one strictly before \<open>t\<close>; a record whose
  timestamp is \<open>t\<close> itself matches neither.
\<close>

theorem matchers_Created_strict:
  "matchers_CreatedAfter_MatchEvent t (Some ev)
     = Inr (case IssueEvent.CreatedAt ev of None \<Rightarrow> False | Some ts \<Rightarrow> t < ts)
   \<and> matchers_CreatedAfter_MatchComment t (Some cm)
     = Inr (case IssueComment.CreatedAt cm of None \<Rightarrow> False | Some ts \<Rightarrow> t < ts)
   \<and> matchers_CreatedAfter_MatchReviewComment t (Some rv)
     = Inr (case PullRequestComment.CreatedAt rv of None \<Rightarrow> False | Some ts \<Rightarrow> t < ts)
   \<and> matchers_CreatedBefore_MatchEvent t (Some ev)
     = Inr (case IssueEvent.CreatedAt ev of None \<Rightarrow> False | Some ts \<Rightarrow> ts < t)
   \<and> matchers_CreatedBefore_MatchComment t (Some cm)
     = Inr (case IssueComment.CreatedAt cm of None \<Rightarrow> False | Some ts \<Rightarrow> ts < t)
   \<and> matchers_CreatedBefore_MatchReviewComment t (Some rv)
     = Inr (case PullRequestComment.CreatedAt rv of None \<Rightarrow> False | Some ts \<Rightarrow> ts < t)
   \<and> matchers_CreatedAfter_MatchEvent t (Some (ev\<lparr>IssueEvent.CreatedAt := Some t\<rparr>)) = Inr False
   \<and> matchers_CreatedAfter_MatchComment t (Some (cm\<lparr>IssueComment.CreatedAt := Some t\<rparr>)) = Inr False
   \<and> matchers_CreatedAfter_MatchReviewComment t (Some (rv\<lparr>PullRequestComment.CreatedAt := Some t\<rparr>)) = Inr False
   \<and> matchers_CreatedBefore_MatchEvent t (Some (ev\<lparr>IssueEvent.CreatedAt := Some t\<rparr>)) = Inr False
   \<and> matchers_CreatedBefore_MatchComment t (Some (cm\<lparr>IssueComment.CreatedAt := Some t\<rparr>)) = Inr False
   \<and> matchers_CreatedBefore_MatchReviewComment t (Some (rv\<lparr>PullRequestComment.CreatedAt := Some t\<rparr>)) = Inr False"
  by (simp add: matchers_CreatedAfter_MatchEvent_def matchers_CreatedAfter_MatchComment_def
      matchers_CreatedAfter_MatchReviewComment_def matchers_CreatedBefore_MatchEvent_def
      matchers_CreatedBefore_MatchComment_def matchers_CreatedBefore_MatchReviewComment_def
      After_def Before_def go_defs split: option.splits)


section \<open>Properties of package event\<close>

lemma ToLower_Bob: "ToLower ''Bob'' = ''bob''"
  by code_simp

lemma ToLower_bob: "ToLower ''bob'' = ''bob''"
  by code_simp

text \<open>
  Claim C9. In package event, \<open>Actor(name).Match(e)\<close> returns true exactly when
  \<open>e.Actor\<close> and \<open>e.Actor.Login\<close> are present and the login is \<open>name\<close> itself, letter
  case included; on an event that is not \<open>nil\<close> it returns false otherwise. There is an
  event whose actor login differs from the name only in letter case: \<open>Actor\<close> does not
  match it, and \<open>AuthorLogin\<close> of package matchers does.
\<close>

theorem event_Actor_case_sensitive:
  "(Actor_Match a e = Inr True
      \<longleftrightarrow> (\<exists>ev u. e = Some ev \<and> Actor ev = Some u \<and> Login u = Some a))
   \<and> Actor_Match a (Some ev) = Inr (\<exists>u. Actor ev = Some u \<and> Login u = Some a)
   \<and> (\<exists>ev u l b. Actor ev = Some u \<and> Login u = Some l \<and> l \<noteq> b \<and> ToLower l = ToLower b
         \<and> Actor_Match b (Some ev) = Inr False \<and> AuthorLogin_MatchEvent b (Some ev) = Inr True)"
proof (intro conjI)
  show "Actor_Match a e = Inr True
      \<longleftrightarrow> (\<exists>ev u. e = Some ev \<and> Actor ev = Some u \<and> Login u = Some a)"
    by (auto simp: Actor_Match_def go_defs split: option.splits)
  show "Actor_Match a (Some ev) = Inr (\<exists>u. Actor ev = Some u \<and> Login u = Some a)"
    by (auto simp: Actor_Match_def go_defs split: option.splits)
  let ?ev = "\<lparr>ID = Some 1, Event = Some ''labeled'', Actor = Some \<lparr>Login = Some ''Bob''\<rparr>,
              Label = None, CreatedAt = Some 0\<rparr>"
  have "Actor_Match ''bob'' (Some ?ev) = Inr False"
    by (simp add: Actor_Match_def go_defs)
  moreover have "AuthorLogin_MatchEvent ''bob'' (Some ?ev) = Inr True"
    by (simp add: AuthorLogin_MatchEvent_def ValidAuthor_MatchEvent_def go_defs ToLower_Bob ToLower_bob)
  moreover have "''Bob'' \<noteq> ''bob''" by simp
  ultimately show "\<exists>ev u l b. Actor ev = Some u \<and> Login u = Some l \<and> l \<noteq> b \<and> ToLower l = ToLower b
         \<and> Actor_Match b (Some ev) = Inr False \<and> AuthorLogin_MatchEvent b (Some ev) = Inr True"
    using ToLower_Bob ToLower_bob
    by (intro exI[of _ ?ev] exI[of _ "\<lparr>Login = Some ''Bob''\<rparr>"] exI[of _ "''Bob''"] exI[of _ "''bob''"]) simp
qed

text \<open>
  Claim C10. In package event, \<open>AddLabel(name).Match(e)\<close> returns true exactly when
  \<open>e.Label\<close>, \<open>e.Label.Name\<close> and \<open>e.Event\<close> are present and the event type is
  \<open>"labeled"\<close> or the label name is \<open>name\<close>: the two tests are joined by "or". There
  is an event whose type is not \<open>"labeled"\<close> and whose label name is \<open>name\<close>, and it
  matches.
\<close>

theorem event_AddLabel_disjunction:
  "(event_AddLabel_Match a e = Inr True
      \<longleftrightarrow> (\<exists>ev lb n t. e = Some ev \<and> Label ev = Some lb \<and> Name lb = Some n \<and> Event ev = Some t
             \<and> (t = ''labeled'' \<or> n = a)))
   \<and> event_AddLabel_Match a (Some ev)
       = Inr (\<exists>lb n t. Label ev = Some lb \<and> Name lb = Some n \<and> Event ev = Some t
                \<and> (t = ''labeled'' \<or> n = a))
   \<and> (\<exists>ev lb t b. Label ev = Some lb \<and> Name lb = Some b \<and> Event ev = Some t \<and> t \<noteq> ''labeled''
         \<and> event_AddLabel_Match b (Some ev) = Inr True)"
proof (intro conjI)
  show "event_AddLabel_Match a e = Inr True
      \<longleftrightarrow> (\<exists>ev lb n t. e = Some ev \<and> Label ev = Some lb \<and> Name lb = Some n \<and> Event ev = Some t
             \<and> (t = ''labeled'' \<or> n = a))"
    by (auto simp: event_AddLabel_Match_def go_defs split: option.splits)
  show "event_AddLabel_Match a (Some ev)
       = Inr (\<exists>lb n t. Label ev = Some lb \<and> Name lb = Some n \<and> Event ev = Some t
                \<and> (t = ''labeled'' \<or> n = a))"
    by (auto simp: event_AddLabel_Match_def go_defs split: option.splits)
  let ?ev = "\<lparr>ID = Some 1, Event = Some ''unlabeled'', Actor = None,
              Label = Some \<lparr>Name = Some ''kind/bug''\<rparr>, CreatedAt = Some 0\<rparr>"
  have "event_AddLabel_Match ''kind/bug'' (Some ?ev) = Inr True"
    by (simp add: event_AddLabel_Match_def go_defs)
  then show "\<exists>ev lb t b. Label ev = Some lb \<and> Name lb = Some b \<and> Event ev = Some t \<and> t \<noteq> ''labeled''
         \<and> event_AddLabel_Match b (Some ev) = Inr True"
    by (intro exI[of _ ?ev] exI[of _ "\<lparr>Name = Some ''kind/bug''\<rparr>"] exI[of _ "''unlabeled''"] exI[of _ "''kind/bug''"]) simp
qed

subsection \<open>And and Or\<close>







subsection \<open>FindEvent\<close>

lemma FindEvent_loop_returns:
  "(\<forall>e\<in>set es. \<exists>b. m e = Inr b)
     \<Longrightarrow> FindEvent_loop es m (Some acc) = Inr (Some (acc @ filter (\<lambda>e. m e = Inr True) es))"
proof (induction es arbitrary: acc)
  case Nil
  then show ?case by simp
next
  case (Cons x xs)
  then obtain b where b: "m x = Inr b" by auto
  from Cons.prems have rest: "\<forall>e\<in>set xs. \<exists>b. m e = Inr b" by simp
  show ?case
    using b Cons.IH[OF rest, of "acc @ [x]"] Cons.IH[OF rest, of acc]
    by (cases b) (simp_all add: and_then_def append_slice_def elems_def)
qed

lemma FindEvent_loop_fails:
  "FindEvent_loop es m acc = Inr r \<Longrightarrow> (\<forall>e\<in>set es. \<exists>b. m e = Inr b)"
proof (induction es arbitrary: acc)
  case Nil
  then show ?case by simp
next
  case (Cons x xs)
  then show ?case
    by (cases "m x") (auto simp: and_then_def)
qed

text \<open>
  Claim C5, as the code has it. When the matcher returns on every element of the
  sequence, \<open>FindEvent\<close> returns the slice of the elements on which the matcher returns
  true, in the order of the input and with repetitions kept; the slice is never \<open>nil\<close>,
  also when the input is empty or \<open>nil\<close> or nothing matches. Whatever \<open>FindEvent\<close>
  returns is that slice.
\<close>

theorem FindEvent_filter:
  "((\<forall>e\<in>set (elems events). \<exists>b. matcher e = Inr b)
      \<longrightarrow> FindEvent events matcher
            = Inr (Some (filter (\<lambda>e. matcher e = Inr True) (elems events))))
   \<and> (FindEvent events matcher = Inr r
      \<longrightarrow> r = Some (filter (\<lambda>e. matcher e = Inr True) (elems events)))"
proof (intro conjI impI)
  assume "\<forall>e\<in>set (elems events). \<exists>b. matcher e = Inr b"
  then show "FindEvent events matcher
               = Inr (Some (filter (\<lambda>e. matcher e = Inr True) (elems events)))"
    using FindEvent_loop_returns[of "elems events" matcher "[]"] by (simp add: FindEvent_def)
next
  assume h: "FindEvent events matcher = Inr r"
  then have "\<forall>e\<in>set (elems events). \<exists>b. matcher e = Inr b"
    unfolding FindEvent_def by (rule FindEvent_loop_fails)
  from FindEvent_loop_returns[OF this, of "[]"] h
  show "r = Some (filter (\<lambda>e. matcher e = Inr True) (elems events))"
    by (simp add: FindEvent_def)
qed

lemma Actor_bob_bob: "Actor_Match ''bob'' (Some (event_of (Some ''bob'') t)) = Inr True"
  by (simp add: Actor_Match_def event_of_def go_defs)

lemma Actor_bob_alice: "Actor_Match ''bob'' (Some (event_of (Some ''alice'') t)) = Inr False"
  by (simp add: Actor_Match_def event_of_def go_defs)

theorem FindEvent_filter_witness:
  "FindEvent (Some [Some (event_of (Some ''bob'') (Some 1)), Some (event_of (Some ''alice'') (Some 2)),
                    Some (event_of (Some ''bob'') (Some 1)), Some (event_of (Some ''bob'') (Some 3))])
     (Actor_Match ''bob'')
   = Inr (Some [Some (event_of (Some ''bob'') (Some 1)), Some (event_of (Some ''bob'') (Some 1)),
                Some (event_of (Some ''bob'') (Some 3))])
   \<and> FindEvent None (Actor_Match ''bob'') = Inr (Some [])
   \<and> FindEvent (Some [Some (event_of (Some ''alice'') (Some 2))]) (Actor_Match ''bob'') = Inr (Some [])"
proof (intro conjI)
  let ?es = "Some [Some (event_of (Some ''bob'') (Some 1)), Some (event_of (Some ''alice'') (Some 2)),
                    Some (event_of (Some ''bob'') (Some 1)), Some (event_of (Some ''bob'') (Some 3))]"
  have "\<forall>e\<in>set (elems ?es). \<exists>b. Actor_Match ''bob'' e = Inr b"
    by (auto simp: elems_def Actor_bob_bob Actor_bob_alice)
  from FindEvent_filter[THEN conjunct1, THEN mp, OF this]
  show "FindEvent ?es (Actor_Match ''bob'')
   = Inr (Some [Some (event_of (Some ''bob'') (Some 1)), Some (event_of (Some ''bob'') (Some 1)),
                Some (event_of (Some ''bob'') (Some 3))])"
    by (simp add: elems_def Actor_bob_bob Actor_bob_alice)
  have "\<forall>e\<in>set (elems None). \<exists>b. Actor_Match ''bob'' e = Inr b"
    by (simp add: elems_def)
  from FindEvent_filter[THEN conjunct1, THEN mp, OF this]
  show "FindEvent None (Actor_Match ''bob'') = Inr (Some [])"
    by (simp add: elems_def)
  have "\<forall>e\<in>set (elems (Some [Some (event_of (Some ''alice'') (Some 2))])). \<exists>b. Actor_Match ''bob'' e = Inr b"
    by (auto simp: elems_def Actor_bob_alice)
  from FindEvent_filter[THEN conjunct1, THEN mp, OF this]
  show "FindEvent (Some [Some (event_of (Some ''alice'') (Some 2))]) (Actor_Match ''bob'') = Inr (Some [])"
    by (simp add: elems_def Actor_bob_alice)
qed

text \<open>
  \<open>FindEvent\<close> fails where the matcher does: on a \<open>nil\<close> element with \<open>Actor\<close>, and on
  an event without a timestamp with \<open>CreatedAfter\<close> of package event.
\<close>

theorem FindEvent_fails_counterexample:
  "FindEvent (Some [None]) (Actor_Match ''bob'') = Inl NilDereference
   \<and> FindEvent (Some [Some (event_of (Some ''bob'') None)]) (event_CreatedAfter_Match 0) = Inl NilDereference"
  by (simp add: FindEvent_def elems_def Actor_Match_def event_CreatedAfter_Match_def event_of_def go_defs)

section \<open>Missing records and fields\<close>

lemma CreatedAfter_MatchEvent_eq:
  "matchers_CreatedAfter_MatchEvent t e
     = Inr (\<not> missing IssueEvent.CreatedAt e \<and> (\<exists>ev ts. e = Some ev \<and> IssueEvent.CreatedAt ev = Some ts \<and> t < ts))"
  by (cases e) (auto simp: matchers_CreatedAfter_MatchEvent_def missing_def After_def go_defs split: option.splits)

lemma CreatedBefore_MatchEvent_eq:
  "matchers_CreatedBefore_MatchEvent t e
     = Inr (\<not> missing IssueEvent.CreatedAt e \<and> (\<exists>ev ts. e = Some ev \<and> IssueEvent.CreatedAt ev = Some ts \<and> ts < t))"
  by (cases e) (auto simp: matchers_CreatedBefore_MatchEvent_def missing_def Before_def go_defs split: option.splits)

lemma CreatedAfter_MatchComment_eq:
  "matchers_CreatedAfter_MatchComment t c
     = Inr (\<not> missing IssueComment.CreatedAt c \<and> (\<exists>cm ts. c = Some cm \<and> IssueComment.CreatedAt cm = Some ts \<and> t < ts))"
  by (cases c) (auto simp: matchers_CreatedAfter_MatchComment_def missing_def After_def go_defs split: option.splits)

lemma CreatedBefore_MatchComment_eq:
  "matchers_CreatedBefore_MatchComment t c
     = Inr (\<not> missing IssueComment.CreatedAt c \<and> (\<exists>cm ts. c = Some cm \<and> IssueComment.CreatedAt cm = Some ts \<and> ts < t))"
  by (cases c) (auto simp: matchers_CreatedBefore_MatchComment_def missing_def Before_def go_defs split: option.splits)

lemma CreatedAfter_MatchReviewComment_eq:
  "matchers_CreatedAfter_MatchReviewComment t r
     = Inr (\<not> missing PullRequestComment.CreatedAt r \<and> (\<exists>rv ts. r = Some rv \<and> PullRequestComment.CreatedAt rv = Some ts \<and> t < ts))"
  by (cases r) (auto simp: matchers_CreatedAfter_MatchReviewComment_def missing_def After_def go_defs split: option.splits)

lemma CreatedBefore_MatchReviewComment_eq:
  "matchers_CreatedBefore_MatchReviewComment t r
     = Inr (\<not> missing PullRequestComment.CreatedAt r \<and> (\<exists>rv ts. r = Some rv \<and> PullRequestComment.CreatedAt rv = Some ts \<and> ts < t))"
  by (cases r) (auto simp: matchers_CreatedBefore_MatchReviewComment_def missing_def Before_def go_defs split: option.splits)

lemma ValidAuthor_MatchEvent_eq:
  "ValidAuthor_MatchEvent e = Inr (\<not> missing (\<lambda>ev. login_of (Actor ev)) e)"
  by (cases e) (auto simp: ValidAuthor_MatchEvent_def missing_def login_of_def go_defs split: option.splits)

lemma ValidAuthor_MatchComment_eq:
  "ValidAuthor_MatchComment c = Inr (\<not> missing (\<lambda>cm. login_of (IssueComment.User cm)) c)"
  by (cases c) (auto simp: ValidAuthor_MatchComment_def missing_def login_of_def go_defs split: option.splits)

lemma ValidAuthor_MatchReviewComment_eq:
  "ValidAuthor_MatchReviewComment r = Inr (\<not> missing (\<lambda>rv. login_of (PullRequestComment.User rv)) r)"
  by (cases r) (auto simp: ValidAuthor_MatchReviewComment_def missing_def login_of_def go_defs split: option.splits)

lemma AuthorLogin_MatchEvent_eq:
  "AuthorLogin_MatchEvent a e
     = Inr (\<not> missing (\<lambda>ev. login_of (Actor ev)) e
            \<and> (\<exists>ev l. e = Some ev \<and> login_of (Actor ev) = Some l \<and> ToLower l = ToLower a))"
  by (cases e) (auto simp: AuthorLogin_MatchEvent_def ValidAuthor_MatchEvent_def missing_def login_of_def go_defs split: option.splits)

lemma AuthorLogin_MatchComment_eq:
  "AuthorLogin_MatchComment a c
     = Inr (\<not> missing (\<lambda>cm. login_of (IssueComment.User cm)) c
            \<and> (\<exists>cm l. c = Some cm \<and> login_of (IssueComment.User cm) = Some l \<and> ToLower l = ToLower a))"
  by (cases c) (auto simp: AuthorLogin_MatchComment_def ValidAuthor_MatchComment_def missing_def login_of_def go_defs split: option.splits)

lemma AuthorLogin_MatchReviewComment_eq:
  "AuthorLogin_MatchReviewComment a r
     = Inr (\<not> missing (\<lambda>rv. login_of (PullRequestComment.User rv)) r
            \<and> (\<exists>rv l. r = Some rv \<and> login_of (PullRequestComment.User rv) = Some l \<and> ToLower l = ToLower a))"
  by (cases r) (auto simp: AuthorLogin_MatchReviewComment_def ValidAuthor_MatchReviewComment_def missing_def login_of_def go_defs split: option.splits)

lemma AddLabel_MatchEvent_eq:
  "matchers_AddLabel_MatchEvent e
     = Inr (\<not> missing Event e \<and> (\<exists>ev. e = Some ev \<and> Event ev = Some ''labeled''))"
  by (cases e) (auto simp: matchers_AddLabel_MatchEvent_def missing_def go_defs split: option.splits)

lemma LabelPrefix_MatchEvent_eq:
  "LabelPrefix_MatchEvent l e
     = Inr (\<not> missing (\<lambda>ev. name_of (Label ev)) e
            \<and> (\<exists>ev n. e = Some ev \<and> name_of (Label ev) = Some n \<and> HasPrefix n l))"
  by (cases e) (auto simp: LabelPrefix_MatchEvent_def missing_def name_of_def go_defs split: option.splits)


lemma Actor_Match_eq:
  "Actor_Match a (Some ev) = Inr (login_of (Actor ev) = Some a)"
  by (auto simp: Actor_Match_def login_of_def go_defs split: option.splits)

lemma event_AddLabel_Match_eq:
  "event_AddLabel_Match a (Some ev)
     = Inr (name_of (Label ev) \<noteq> None \<and> Event ev \<noteq> None
            \<and> (Event ev = Some ''labeled'' \<or> name_of (Label ev) = Some a))"
  by (auto simp: event_AddLabel_Match_def name_of_def go_defs split: option.splits)

lemma event_Created_eq:
  "IssueEvent.CreatedAt ev = Some ts \<Longrightarrow>
     event_CreatedAfter_Match t (Some ev) = Inr (t < ts)
     \<and> event_CreatedBefore_Match t (Some ev) = Inr (ts < t)"
  by (simp add: event_CreatedAfter_Match_def event_CreatedBefore_Match_def After_def Before_def go_defs)

lemma event_nil_record:
  "Actor_Match a None = Inl NilDereference
   \<and> event_AddLabel_Match a None = Inl NilDereference
   \<and> event_CreatedAfter_Match t None = Inl NilDereference
   \<and> event_CreatedBefore_Match t None = Inl NilDereference"
  by (simp add: Actor_Match_def event_AddLabel_Match_def event_CreatedAfter_Match_def
      event_CreatedBefore_Match_def go_defs)

lemmas matchers_eqs =
  CreatedAfter_MatchEvent_eq CreatedBefore_MatchEvent_eq CreatedAfter_MatchComment_eq
  CreatedBefore_MatchComment_eq CreatedAfter_MatchReviewComment_eq
  CreatedBefore_MatchReviewComment_eq ValidAuthor_MatchEvent_eq ValidAuthor_MatchComment_eq
  ValidAuthor_MatchReviewComment_eq AuthorLogin_MatchEvent_eq AuthorLogin_MatchComment_eq
  AuthorLogin_MatchReviewComment_eq AddLabel_MatchEvent_eq LabelPrefix_MatchEvent_eq

lemmas matchers_constant_defs =
  matchers_AddLabel_MatchComment_def matchers_AddLabel_MatchReviewComment_def
  LabelPrefix_MatchComment_def LabelPrefix_MatchReviewComment_def
  EventType_MatchEvent_def EventType_MatchComment_def EventType_MatchReviewComment_def
  CommentType_MatchEvent_def CommentType_MatchComment_def CommentType_MatchReviewComment_def
  ReviewCommentType_MatchEvent_def ReviewCommentType_MatchComment_def
  ReviewCommentType_MatchReviewComment_def

text \<open>
  Claim C2, as the code has it. Every leaf matcher of package matchers returns on every
  input. Those that read fields (\<open>CreatedAfter\<close>, \<open>CreatedBefore\<close>, \<open>ValidAuthor\<close>,
  \<open>AuthorLogin\<close>, \<open>AddLabel\<close>, \<open>LabelPrefix\<close>) return false whenever the record or a
  field they read is \<open>nil\<close>, and \<open>AddLabel\<close> and \<open>LabelPrefix\<close> return false on every
  comment and review comment. \<open>EventType\<close>, \<open>CommentType\<close> and \<open>ReviewCommentType\<close> read
  nothing: each returns true on its own shape and false on the two others, whatever the
  record. In package event, on an event that is not \<open>nil\<close>, \<open>Actor\<close> and \<open>AddLabel\<close>
  return, and return false when a field they read is \<open>nil\<close>; \<open>CreatedAfter\<close> and
  \<open>CreatedBefore\<close> return when the event has a timestamp.
\<close>

theorem leaf_matchers_fail_closed:
  "(\<exists>b. matchers_CreatedAfter_MatchEvent t e = Inr b)
   \<and> (\<exists>b. matchers_CreatedAfter_MatchComment t c = Inr b)
   \<and> (\<exists>b. matchers_CreatedAfter_MatchReviewComment t r = Inr b)
   \<and> (\<exists>b. matchers_CreatedBefore_MatchEvent t e = Inr b)
   \<and> (\<exists>b. matchers_CreatedBefore_MatchComment t c = Inr b)
   \<and> (\<exists>b. matchers_CreatedBefore_MatchReviewComment t r = Inr b)
   \<and> (\<exists>b. ValidAuthor_MatchEvent e = Inr b)
   \<and> (\<exists>b. ValidAuthor_MatchComment c = Inr b)
   \<and> (\<exists>b. ValidAuthor_MatchReviewComment r = Inr b)
   \<and> (\<exists>b. AuthorLogin_MatchEvent a e = Inr b)
   \<and> (\<exists>b. AuthorLogin_MatchComment a c = Inr b)
   \<and> (\<exists>b. AuthorLogin_MatchReviewComment a r = Inr b)
   \<and> (\<exists>b. matchers_AddLabel_MatchEvent e = Inr b)
   \<and> (\<exists>b. LabelPrefix_MatchEvent l e = Inr b)
   \<and> (missing IssueEvent.CreatedAt e \<longrightarrow>
         matchers_CreatedAfter_MatchEvent t e = Inr False
         \<and> matchers_CreatedBefore_MatchEvent t e = Inr False)
   \<and> (missing IssueComment.CreatedAt c \<longrightarrow>
         matchers_CreatedAfter_MatchComment t c = Inr False
         \<and> matchers_CreatedBefore_MatchComment t c = Inr False)
   \<and> (missing PullRequestComment.CreatedAt r \<longrightarrow>
         matchers_CreatedAfter_MatchReviewComment t r = Inr False
         \<and> matchers_CreatedBefore_MatchReviewComment t r = Inr False)
   \<and> (missing (\<lambda>ev. login_of (Actor ev)) e \<longrightarrow>
         ValidAuthor_MatchEvent e = Inr False \<and> AuthorLogin_MatchEvent a e = Inr False)
   \<and> (missing (\<lambda>cm. login_of (IssueComment.User cm)) c \<longrightarrow>
         ValidAuthor_MatchComment c = Inr False \<and> AuthorLogin_MatchComment a c = Inr False)
   \<and> (missing (\<lambda>rv. login_of (PullRequestComment.User rv)) r \<longrightarrow>
         ValidAuthor_MatchReviewComment r = Inr False
         \<and> AuthorLogin_MatchReviewComment a r = Inr False)
   \<and> (missing Event e \<longrightarrow> matchers_AddLabel_MatchEvent e = Inr False)
   \<and> (missing (\<lambda>ev. name_of (Label ev)) e \<longrightarrow> LabelPrefix_MatchEvent l e = Inr False)
   \<and> matchers_AddLabel_MatchComment c = Inr False
   \<and> matchers_AddLabel_MatchReviewComment r = Inr False
   \<and> LabelPrefix_MatchComment l c = Inr False
   \<and> LabelPrefix_MatchReviewComment l r = Inr False
   \<and> EventType_MatchEvent e = Inr True
   \<and> EventType_MatchComment c = Inr False
   \<and> EventType_MatchReviewComment r = Inr False
   \<and> CommentType_MatchEvent e = Inr False
   \<and> CommentType_MatchComment c = Inr True
   \<and> CommentType_MatchReviewComment r = Inr False
   \<and> ReviewCommentType_MatchEvent e = Inr False
   \<and> ReviewCommentType_MatchComment c = Inr False
   \<and> ReviewCommentType_MatchReviewComment r = Inr True
   \<and> (\<exists>b. Actor_Match a (Some ev) = Inr b)
   \<and> (\<exists>b. event_AddLabel_Match a (Some ev) = Inr b)
   \<and> (login_of (Actor ev) = None \<longrightarrow> Actor_Match a (Some ev) = Inr False)
   \<and> (name_of (Label ev) = None \<or> Event ev = None \<longrightarrow>
         event_AddLabel_Match a (Some ev) = Inr False)
   \<and> (IssueEvent.CreatedAt ev \<noteq> None \<longrightarrow>
         (\<exists>b. event_CreatedAfter_Match t (Some ev) = Inr b)
         \<and> (\<exists>b. event_CreatedBefore_Match t (Some ev) = Inr b))"
proof -
  have created: "IssueEvent.CreatedAt ev \<noteq> None \<longrightarrow>
         (\<exists>b. event_CreatedAfter_Match t (Some ev) = Inr b)
         \<and> (\<exists>b. event_CreatedBefore_Match t (Some ev) = Inr b)"
    using event_Created_eq[of ev _ t] by (cases "IssueEvent.CreatedAt ev") simp_all
  show ?thesis
    using created
    by (simp add: matchers_eqs matchers_constant_defs Actor_Match_eq event_AddLabel_Match_eq)
qed

theorem leaf_matchers_fail_closed_witness:
  "missing IssueEvent.CreatedAt (Some (event_of None None))
   \<and> missing (\<lambda>ev. login_of (Actor ev)) (Some (event_of None None))
   \<and> missing (\<lambda>ev. name_of (Label ev)) (Some (event_of None None))
   \<and> missing Event None
   \<and> missing IssueComment.CreatedAt (Some \<lparr>IssueComment.User = None, IssueComment.CreatedAt = None\<rparr>)
   \<and> missing (\<lambda>cm. login_of (IssueComment.User cm))
         (Some \<lparr>IssueComment.User = None, IssueComment.CreatedAt = None\<rparr>)
   \<and> missing PullRequestComment.CreatedAt None
   \<and> missing (\<lambda>rv. login_of (PullRequestComment.User rv)) None
   \<and> login_of (Actor (event_of None (Some 5))) = None
   \<and> name_of (Label (event_of None (Some 5))) = None
   \<and> IssueEvent.CreatedAt (event_of None (Some 5)) \<noteq> None
   \<and> matchers_CreatedAfter_MatchEvent 0 (Some (event_of None None)) = Inr False
   \<and> matchers_CreatedBefore_MatchEvent 0 (Some (event_of None None)) = Inr False
   \<and> matchers_CreatedAfter_MatchComment 0
         (Some \<lparr>IssueComment.User = None, IssueComment.CreatedAt = None\<rparr>) = Inr False
   \<and> matchers_CreatedBefore_MatchReviewComment 0 None = Inr False
   \<and> ValidAuthor_MatchEvent (Some (event_of None None)) = Inr False
   \<and> AuthorLogin_MatchEvent ''bob'' (Some (event_of None None)) = Inr False
   \<and> AuthorLogin_MatchComment ''bob''
         (Some \<lparr>IssueComment.User = None, IssueComment.CreatedAt = None\<rparr>) = Inr False
   \<and> AuthorLogin_MatchReviewComment ''bob'' None = Inr False
   \<and> matchers_AddLabel_MatchEvent None = Inr False
   \<and> LabelPrefix_MatchEvent ''kind/'' (Some (event_of None None)) = Inr False
   \<and> Actor_Match ''bob'' (Some (event_of None (Some 5))) = Inr False
   \<and> event_AddLabel_Match ''kind/bug'' (Some (event_of None (Some 5))) = Inr False
   \<and> event_CreatedAfter_Match 0 (Some (event_of None (Some 5))) = Inr True"
  using leaf_matchers_fail_closed[of 0 "Some (event_of None None)"
      "Some \<lparr>IssueComment.User = None, IssueComment.CreatedAt = None\<rparr>" None "''bob''" "''kind/''"
      "event_of None (Some 5)"]
    leaf_matchers_fail_closed[of 0 None None None "''kind/bug''" "''kind/''"
      "event_of None (Some 5)"]
  by (simp add: missing_def login_of_def name_of_def event_of_def event_CreatedAfter_Match_def
      After_def go_defs)

text \<open>
  The type tests return true on a \<open>nil\<close> record of their own shape. In package event,
  \<open>Actor\<close> fails on a \<open>nil\<close> event, and \<open>CreatedAfter\<close> fails on an event without a
  timestamp.
\<close>

theorem leaf_matchers_violate_fail_closed:
  "EventType_MatchEvent None = Inr True
   \<and> CommentType_MatchComment None = Inr True
   \<and> ReviewCommentType_MatchReviewComment None = Inr True
   \<and> Actor_Match ''bob'' None = Inl NilDereference
   \<and> event_CreatedAfter_Match 0 (Some (event_of (Some ''bob'') None)) = Inl NilDereference"
  by (simp add: EventType_MatchEvent_def CommentType_MatchComment_def
      ReviewCommentType_MatchReviewComment_def Actor_Match_def event_CreatedAfter_Match_def
      event_of_def go_defs)

section \<open>Properties of the API client\<close>

lemma for_loop_steps: "steps body n st = Some st' \<Longrightarrow> for_loop body st = for_loop body st'"
proof (induction n arbitrary: st)
  case 0
  then show ?case by simp
next
  case (Suc n)
  then obtain st1 where b: "body st = Inr (Continue st1)" and r: "steps body n st1 = Some st'"
    by (auto split: sum.splits step.splits)
  have "for_loop body st = for_loop body st1"
    by (subst for_loop.simps) (simp add: b)
  with Suc.IH[OF r] show ?case by simp
qed

lemma for_loop_Done: "body st = Inr (Done r) \<Longrightarrow> for_loop body st = Some (Inr r)"
  by (subst for_loop.simps) simp


lemma FetchIssues_body_error:
  assumes "limitsCheckAndWait env client w = (client1, w1)"
    and "ListByRepo env gc (Org client1) (Project client1) opt w1 = (Inl err, w2)"
  shows "FetchIssues_body env gc (client, opt, allIssues, w) = Inr (Done ((None, Some err), client1, w2))"
  using assms by (simp add: FetchIssues_body_def)

text \<open>A round of \<open>FetchIssues\<close> goes round again only after a page that announces a next one.\<close>

lemma FetchIssues_body_Continue:
  assumes "FetchIssues_body env gc (client, opt, allIssues, w) = Inr (Continue st')"
    and "limitsCheckAndWait env client w = (client1, w1)"
  shows "\<exists>issues resp w2 w3. ListByRepo env gc (Org client1) (Project client1) opt w1
                     = (Inr (issues, resp), w2)
           \<and> NextPage resp \<noteq> 0
           \<and> st' = (client1, opt\<lparr>ListOptions := (ListOptions opt)\<lparr>Page := NextPage resp\<rparr>\<rparr>,
                    append_slice allIssues issues, w3)"
  using assms
  by (auto simp: FetchIssues_body_def go_defs Let_def split: prod.splits sum.splits if_splits)

text \<open>
  Claim C8. When \<open>FetchIssues\<close> has fetched any number of pages and the next page
  request returns an error, \<open>FetchIssues\<close> returns that error with a \<open>nil\<close> list,
  whatever the pages fetched before held, and the world it leaves is the one right after
  the failed request: the request is not made again.
\<close>

theorem FetchIssues_error_aborts:
  assumes "getGithubClient env client w = (Inr gc, client0, w0)"
    and "steps (FetchIssues_body env gc) n
           (client0, \<lparr>Since = latest, Sort = ''updated'', State = ''all'', Direction = ''asc'',
                      ListOptions = \<lparr>Page = 0, PerPage = 0\<rparr>\<rparr>, None, w0)
         = Some (client1, opt, allIssues, w1)"
    and "limitsCheckAndWait env client1 w1 = (client2, w2)"
    and "ListByRepo env gc (Org client2) (Project client2) opt w2 = (Inl err, w3)"
  shows "FetchIssues env client latest w = Some (Inr ((None, Some err), client2, w3))"
proof -
  have "for_loop (FetchIssues_body env gc) (client1, opt, allIssues, w1)
          = Some (Inr ((None, Some err), client2, w3))"
    using assms(3,4) by (intro for_loop_Done FetchIssues_body_error)
  with for_loop_steps[OF assms(2)] show ?thesis
    using assms(1) by (simp add: FetchIssues_def)
qed

lemma test_getGithubClient:
  "getGithubClient test_env test_client w = (Inr (NewClient (Some ''secret'')), ready_client, w)"
  by (simp add: getGithubClient_def test_client_def ready_client_def Let_def)

lemma test_limitsCheckAndWait: "limitsCheckAndWait test_env ready_client w = (ready_client, w)"
  by (simp add: limitsCheckAndWait_def getGithubClient_def ready_client_def test_env_def)

lemma test_ListByRepo:
  "ListByRepo test_env gc org project opt w =
     (if Page (ListOptions opt) = 0
      then (Inr ([\<lparr>Number = Some 7, UpdatedAt = Some 1\<rparr>], \<lparr>NextPage = 2\<rparr>), Suc w)
      else (Inl ''server error'', Suc w))"
  by (simp add: test_env_def)


lemma test_quiet: "Print test_env s w = w" "Sleep test_env d w = w"
  by (simp_all add: test_env_def)

theorem FetchIssues_error_aborts_witness:
  "FetchIssues test_env test_client 0 0 = Some (Inr ((None, Some ''server error''), ready_client, 2))"
  using FetchIssues_error_aborts[of test_env test_client 0 "NewClient (Some ''secret'')" ready_client 0
      "Suc 0" 0 ready_client
      "\<lparr>Since = 0, Sort = ''updated'', State = ''all'', Direction = ''asc'',
        ListOptions = \<lparr>Page = 2, PerPage = 0\<rparr>\<rparr>"
      "Some [\<lparr>Number = Some 7, UpdatedAt = Some 1\<rparr>]" 1 ready_client 1 "''server error''" 2]
  by (simp add: test_getGithubClient test_limitsCheckAndWait FetchIssues_body_def
      test_ListByRepo test_quiet go_defs append_slice_def elems_def)




text \<open>A round of \<open>FetchIssueEvents\<close> goes round again only after a failed request.\<close>

lemma FetchIssueEvents_body_Continue:
  assumes "FetchIssueEvents_body env gc latest (client, opt, allEvents, w) = Inr (Continue st')"
    and "limitsCheckAndWait env client w = (client1, w1)"
  shows "\<exists>err w2. ListRepositoryEvents env gc (Org client1) (Project client1) opt
                     (Print env ''Downloading events page'' w1) = (Inl err, w2)
           \<and> st' = (client1, opt, allEvents,
                    Sleep env Second (Print env ''Request failed. Wait before trying again.'' w2))"
  using assms
  by (auto simp: FetchIssueEvents_body_def go_defs Let_def split: prod.splits sum.splits if_splits)







end
